theory Spec2Isabelle
  imports Complex_Main
begin

section \<open>Data model of the swarm component\<close>

text \<open>
  The component \<open>SwarmApp\<close> keeps its particles in a mutable array
  (\<open>particles.current\<close>) and reads thirteen settings. The loop body is given three
  times. First over the real numbers, where every operation is exact and
  \<open>Math.hypot\<close> is the euclidean norm; then with the rounding of every operation
  written out; and last on JavaScript numbers with the infinities and NaN. A property
  that depends on rounding or on non-finite numbers is stated on the later models.
\<close>

record particle =
  x :: real
  y :: real
  vx :: real
  vy :: real
  rotation :: real

datatype shape = Circle | Square | Line | CustomSVG

record settings =
  particleCount :: nat
  velocityCap :: real
  repulsionRadius :: real
  attractionRadius :: real
  cohesionForce :: real
  friction :: real
  randomForce :: real
  rotationSpeed :: real
  trailOpacity :: real
  backgroundColor :: string
  swarmColor :: string
  shape :: shape
  svgPathData :: string

definition hypot :: "real \<Rightarrow> real \<Rightarrow> real" where
  "hypot a b = sqrt (a * a + b * b)"

section \<open>The pairwise force scan of \<open>draw\<close>\<close>

text \<open>
  \<open>const repul = (repulsionRadius - d) / repulsionRadius\<close> and
  \<open>const attr = (d - repulsionRadius) / (attractionRadius - repulsionRadius)\<close>.
\<close>

definition repul :: "real \<Rightarrow> real \<Rightarrow> real" where
  "repul rr d = (rr - d) / rr"

definition attr :: "real \<Rightarrow> real \<Rightarrow> real \<Rightarrow> real" where
  "attr rr ar d = (d - rr) / (ar - rr)"

text \<open>
  The body of the inner loop for a pair \<open>i \<noteq> j\<close>: \<open>p1\<close> is particle \<open>i\<close>,
  \<open>p2\<close> is particle \<open>j\<close>, and the pair \<open>(fx, fy)\<close> is the accumulator, which the
  source updates with \<open>-=\<close> in the repulsion branch and \<open>+=\<close> in the attraction branch.
\<close>

definition accumulate :: "settings \<Rightarrow> particle \<Rightarrow> particle \<Rightarrow> real \<times> real \<Rightarrow> real \<times> real" where
  "accumulate s p1 p2 f =
    (let dx = x p2 - x p1;
         dy = y p2 - y p1;
         d = hypot dx dy;
         fx = fst f;
         fy = snd f
     in if d > 0 then
          if d < repulsionRadius s then
            (fx - (dx / d) * repul (repulsionRadius s) d,
             fy - (dy / d) * repul (repulsionRadius s) d)
          else if d < attractionRadius s then
            (fx + (dx / d) * attr (repulsionRadius s) (attractionRadius s) d * cohesionForce s,
             fy + (dy / d) * attr (repulsionRadius s) (attractionRadius s) d * cohesionForce s)
          else (fx, fy)
        else (fx, fy))"

text \<open>
  The same body with every \<open>/\<close> of the source checked: a division whose divisor is
  zero yields \<open>None\<close> (in JavaScript it would yield an infinity or NaN, which the
  real-valued model cannot hold).
\<close>

definition checked_div :: "real \<Rightarrow> real \<Rightarrow> real option" where
  "checked_div a b = (if b = 0 then None else Some (a / b))"

definition accumulate_checked ::
  "settings \<Rightarrow> particle \<Rightarrow> particle \<Rightarrow> real \<times> real \<Rightarrow> (real \<times> real) option" where
  "accumulate_checked s p1 p2 f =
    (let dx = x p2 - x p1;
         dy = y p2 - y p1;
         d = hypot dx dy;
         fx = fst f;
         fy = snd f
     in if d > 0 then
          if d < repulsionRadius s then
            Option.bind (checked_div (repulsionRadius s - d) (repulsionRadius s)) (\<lambda>rp.
            Option.bind (checked_div dx d) (\<lambda>ux.
            Option.bind (checked_div dy d) (\<lambda>uy.
              Some (fx - ux * rp, fy - uy * rp))))
          else if d < attractionRadius s then
            Option.bind (checked_div (d - repulsionRadius s)
                           (attractionRadius s - repulsionRadius s)) (\<lambda>av.
            Option.bind (checked_div dx d) (\<lambda>ux.
            Option.bind (checked_div dy d) (\<lambda>uy.
              Some (fx + ux * av * cohesionForce s, fy + uy * av * cohesionForce s))))
          else Some (fx, fy)
        else Some (fx, fy))"

text \<open>
  The inner loop \<open>for (let j = 0; j < particles.current.length; j++)\<close> with its
  \<open>if (i === j) continue\<close>, started from \<open>fx = 0, fy = 0\<close>.
\<close>

definition force_scan :: "settings \<Rightarrow> particle list \<Rightarrow> nat \<Rightarrow> real \<times> real" where
  "force_scan s ps i =
     fold (\<lambda>j f. if i = j then f else accumulate s (ps ! i) (ps ! j) f) [0..<length ps] (0, 0)"

section \<open>Velocity cap and wraparound\<close>

text \<open>
  \<open>const speed = Math.hypot(p1.vx, p1.vy); if (speed > velocityCap) { ... }\<close>.
  The division \<open>velocityCap / speed\<close> has a zero divisor only when the speed is zero
  and the cap is negative; JavaScript then yields NaN, which a real number cannot hold.
  The settings declare \<open>velocityCap > 0\<close>, and every statement below that depends on
  what the cap computes takes a cap that is not negative.
\<close>

definition cap_velocity :: "real \<Rightarrow> real \<times> real \<Rightarrow> real \<times> real" where
  "cap_velocity cap v =
    (let speed = hypot (fst v) (snd v)
     in if speed > cap then
          (let ratio = cap / speed in (fst v * ratio, snd v * ratio))
        else v)"

text \<open>
  \<open>if (p1.x < 0) p1.x += width; if (p1.x > width) p1.x -= width;\<close>: two statements
  in sequence, the second reading what the first wrote.
\<close>

definition wrap :: "real \<Rightarrow> real \<Rightarrow> real" where
  "wrap c extent =
    (let c1 = (if c < 0 then c + extent else c)
     in if c1 > extent then c1 - extent else c1)"

section \<open>One animation frame: the outer loop of \<open>draw\<close>\<close>

text \<open>
  The body of the outer loop for particle \<open>i\<close>, on the array as it is when the loop
  reaches \<open>i\<close>. The two calls of \<open>Math.random()\<close> are the inputs \<open>r1\<close> and
  \<open>r2\<close> (each in \<open>[0, 1)\<close>); \<open>w\<close> and \<open>h\<close> are the closure variables
  \<open>width\<close> and \<open>height\<close>. The result is the particle as the body leaves it.
\<close>

definition step_particle ::
  "settings \<Rightarrow> real \<Rightarrow> real \<Rightarrow> real \<Rightarrow> real \<Rightarrow> particle list \<Rightarrow> nat \<Rightarrow> particle" where
  "step_particle s w h r1 r2 ps i =
    (let p1 = ps ! i;
         f = force_scan s ps i;
         vx1 = vx p1 + (fst f + (r1 - 0.5) * randomForce s);
         vy1 = vy p1 + (snd f + (r2 - 0.5) * randomForce s);
         vx2 = vx1 * friction s;
         vy2 = vy1 * friction s;
         v = cap_velocity (velocityCap s) (vx2, vy2);
         x1 = x p1 + fst v;
         y1 = y p1 + snd v
     in \<lparr>x = wrap x1 w, y = wrap y1 h, vx = fst v, vy = snd v,
         rotation = rotation p1 + rotationSpeed s\<rparr>)"

text \<open>
  The array after the first \<open>k\<close> iterations of the outer loop. The source mutates
  \<open>particles.current[i]\<close> in place, so iteration \<open>k\<close> runs on the array that the
  iterations before it have written. \<open>rnd n\<close> is the value of the \<open>n\<close>-th call of
  \<open>Math.random()\<close> in the frame; particle \<open>k\<close> makes calls \<open>2k\<close> and \<open>2k + 1\<close>.
\<close>

primrec tick_upto ::
  "settings \<Rightarrow> real \<Rightarrow> real \<Rightarrow> (nat \<Rightarrow> real) \<Rightarrow> nat \<Rightarrow> particle list \<Rightarrow> particle list" where
  "tick_upto s w h rnd 0 ps = ps"
| "tick_upto s w h rnd (Suc k) ps =
    (let qs = tick_upto s w h rnd k ps
     in qs[k := step_particle s w h (rnd (2 * k)) (rnd (2 * k + 1)) qs k])"

definition tick ::
  "settings \<Rightarrow> real \<Rightarrow> real \<Rightarrow> (nat \<Rightarrow> real) \<Rightarrow> particle list \<Rightarrow> particle list" where
  "tick s w h rnd ps = tick_upto s w h rnd (length ps) ps"

section \<open>Drawing one particle\<close>

datatype 'p canvas_call =
    SetFillStyle string
  | Save
  | Translate real real
  | Rotate real
  | BeginPath
  | Arc real real real real real
  | Fill
  | FillRect real real real real
  | MoveTo real real
  | LineTo real real
  | SetStrokeStyle string
  | SetLineWidth real
  | Stroke
  | Scale real real
  | FillPath 'p
  | Restore

text \<open>
  The calls on the 2D context that the loop body makes for a particle after moving it.
  \<open>path\<close> is \<open>customSVGPath2D.current\<close>, \<open>None\<close> for \<open>null\<close>.
\<close>

definition draw_particle :: "settings \<Rightarrow> 'p option \<Rightarrow> real \<Rightarrow> particle \<Rightarrow> 'p canvas_call list" where
  "draw_particle s path dp p1 =
    [SetFillStyle (swarmColor s), Save, Translate (x p1 * dp) (y p1 * dp), Rotate (rotation p1)] @
    (let size = dp
     in if shape s = Circle then [BeginPath, Arc 0 0 size 0 (pi * 2), Fill]
        else if shape s = Square then [FillRect (- size) (- size) (size * 2) (size * 2)]
        else if shape s = Line then
          [BeginPath, MoveTo 0 0, LineTo 0 (- size * 4), SetStrokeStyle (swarmColor s),
           SetLineWidth (size * 0.5), Stroke]
        else (case path of
                Some cp \<Rightarrow> if shape s = CustomSVG then [Scale (size * 5) (size * 5), FillPath cp] else []
              | None \<Rightarrow> [])) @
    [Restore]"

text \<open>The calls that paint: everything else only changes the drawing state.\<close>

fun paints :: "'p canvas_call \<Rightarrow> bool" where
  "paints Fill = True"
| "paints (FillRect a b c e) = True"
| "paints Stroke = True"
| "paints (FillPath cp) = True"
| "paints other = False"

section \<open>Component state, effects and event handlers\<close>

text \<open>
  The state that the effects and the frame loop share: the settings (React state), the
  error text \<open>svgError\<close>, the refs \<open>particles\<close> and \<open>customSVGPath2D\<close>, and the
  closure variables \<open>dpr\<close>, \<open>width\<close>, \<open>height\<close> of the canvas effect together with
  the size it gives the canvas. The DOM stores a canvas size as an integer; that
  truncation is left out, and nothing below reads the canvas size.
\<close>

record 'p app_state =
  cfg :: settings
  svgError :: string
  particles :: "particle list"
  customSVGPath2D :: "'p option"
  dpr :: real
  width :: real
  height :: real
  canvas_width :: real
  canvas_height :: real

text \<open>What the browser reports when \<open>resizeCanvas\<close> runs.\<close>

record layout =
  clientWidth :: real
  clientHeight :: real
  devicePixelRatio :: real

definition resizeCanvas :: "layout \<Rightarrow> 'p app_state \<Rightarrow> 'p app_state" where
  "resizeCanvas env st =
    (let dpr1 = (if devicePixelRatio env = 0 then 1 else devicePixelRatio env);
         width1 = clientWidth env;
         height1 = clientHeight env
     in st\<lparr>dpr := dpr1, width := width1, height := height1,
           canvas_width := width1 * dpr1, canvas_height := height1 * dpr1\<rparr>)"

text \<open>
  \<open>Array.from({ length: particleCount }, ...)\<close>: particle \<open>k\<close> makes the calls
  \<open>3k\<close>, \<open>3k + 1\<close> and \<open>3k + 2\<close> of \<open>Math.random()\<close>.
\<close>

definition initParticles :: "(nat \<Rightarrow> real) \<Rightarrow> 'p app_state \<Rightarrow> 'p app_state" where
  "initParticles rnd st =
     st\<lparr>particles :=
          map (\<lambda>k. \<lparr>x = rnd (3 * k) * width st, y = rnd (3 * k + 1) * height st,
                     vx = 0, vy = 0, rotation = rnd (3 * k + 2) * pi * 2\<rparr>)
              [0..<particleCount (cfg st)]\<rparr>"

text \<open>
  The body of the canvas effect: \<open>resizeCanvas(); initParticles();\<close>, after which it
  registers \<open>resizeCanvas\<close> as the listener of the window's \<open>resize\<close> event and
  requests the first frame.
\<close>

definition canvas_effect :: "layout \<Rightarrow> (nat \<Rightarrow> real) \<Rightarrow> 'p app_state \<Rightarrow> 'p app_state" where
  "canvas_effect env rnd st = initParticles rnd (resizeCanvas env st)"

text \<open>\<open>window.addEventListener("resize", resizeCanvas)\<close>: the listener is \<open>resizeCanvas\<close> alone.\<close>

definition on_window_resize :: "layout \<Rightarrow> 'p app_state \<Rightarrow> 'p app_state" where
  "on_window_resize env st = resizeCanvas env st"

text \<open>
  The effect that compiles the path. \<open>new Path2D(svgPathData)\<close> is the browser's
  constructor, not code of this component: it is the parameter \<open>compile\<close>, with
  \<open>None\<close> standing for a constructor that throws.
\<close>

definition invalid_svg_message :: string where
  "invalid_svg_message = ''Invalid SVG path data. Example: M0 -1 L1 0 L0 1''"

definition svg_effect :: "(string \<Rightarrow> 'p option) \<Rightarrow> 'p app_state \<Rightarrow> 'p app_state" where
  "svg_effect compile st =
    (if shape (cfg st) = CustomSVG then
       (case compile (svgPathData (cfg st)) of
          Some path \<Rightarrow> st\<lparr>customSVGPath2D := Some path, svgError := []\<rparr>
        | None \<Rightarrow> st\<lparr>customSVGPath2D := None, svgError := invalid_svg_message\<rparr>)
     else st)"

text \<open>
  \<open>handleSvgChange\<close> followed by the effects that React re-runs. Both the path
  effect (dependencies \<open>[shape, svgPathData]\<close>) and the canvas effect (whose
  dependency list ends in \<open>shape, svgPathData\<close>) depend on \<open>svgPathData\<close>, so a
  changed value runs both, in the order of their declaration; an unchanged value runs
  neither.
\<close>

definition handleSvgChange ::
  "(string \<Rightarrow> 'p option) \<Rightarrow> layout \<Rightarrow> (nat \<Rightarrow> real) \<Rightarrow> string \<Rightarrow> 'p app_state \<Rightarrow> 'p app_state" where
  "handleSvgChange compile env rnd pathData st =
    (let st1 = st\<lparr>cfg := (cfg st)\<lparr>svgPathData := pathData\<rparr>,
                  svgError := (case compile pathData of Some path \<Rightarrow> [] | None \<Rightarrow> invalid_svg_message)\<rparr>
     in if pathData = svgPathData (cfg st) then st1
        else canvas_effect env rnd (svg_effect compile st1))"

section \<open>Double precision\<close>






section \<open>The step with rounding\<close>

text \<open>
  The loop body once more, on finite numbers, with the rounding of every arithmetic
  operation written out: \<open>rd\<close> rounds the exact result of \<open>+\<close>, \<open>-\<close>, \<open>*\<close> and \<open>/\<close>,
  and \<open>hy\<close> is \<open>Math.hypot\<close>. With \<open>rd = fl\<close> and \<open>hy = hypot_fl\<close> this is the
  arithmetic of the code as long as no result overflows. The operations are rounded in the
  order in which JavaScript evaluates them: \<open>a += b + c * e\<close> is \<open>a = a + (b + (c * e))\<close>
  and \<open>(dx / d) * attr * cohesionForce\<close> is \<open>((dx / d) * attr) * cohesionForce\<close>.
\<close>

definition accumulate_fl ::
  "(real \<Rightarrow> real) \<Rightarrow> (real \<Rightarrow> real \<Rightarrow> real) \<Rightarrow> settings \<Rightarrow> particle \<Rightarrow> particle
     \<Rightarrow> real \<times> real \<Rightarrow> real \<times> real" where
  "accumulate_fl rd hy s p1 p2 f =
    (let dx = rd (x p2 - x p1);
         dy = rd (y p2 - y p1);
         d = hy dx dy;
         fx = fst f;
         fy = snd f
     in if d > 0 then
          if d < repulsionRadius s then
            (let rp = rd (rd (repulsionRadius s - d) / repulsionRadius s)
             in (rd (fx - rd (rd (dx / d) * rp)), rd (fy - rd (rd (dy / d) * rp))))
          else if d < attractionRadius s then
            (let av = rd (rd (d - repulsionRadius s) / rd (attractionRadius s - repulsionRadius s))
             in (rd (fx + rd (rd (rd (dx / d) * av) * cohesionForce s)),
                 rd (fy + rd (rd (rd (dy / d) * av) * cohesionForce s))))
          else (fx, fy)
        else (fx, fy))"

definition force_scan_fl ::
  "(real \<Rightarrow> real) \<Rightarrow> (real \<Rightarrow> real \<Rightarrow> real) \<Rightarrow> settings \<Rightarrow> particle list \<Rightarrow> nat
     \<Rightarrow> real \<times> real" where
  "force_scan_fl rd hy s ps i =
     fold (\<lambda>j f. if i = j then f else accumulate_fl rd hy s (ps ! i) (ps ! j) f)
       [0..<length ps] (0, 0)"

definition cap_velocity_fl ::
  "(real \<Rightarrow> real) \<Rightarrow> (real \<Rightarrow> real \<Rightarrow> real) \<Rightarrow> real \<Rightarrow> real \<times> real \<Rightarrow> real \<times> real" where
  "cap_velocity_fl rd hy cap v =
    (let speed = hy (fst v) (snd v)
     in if speed > cap then
          (let ratio = rd (cap / speed) in (rd (fst v * ratio), rd (snd v * ratio)))
        else v)"

definition wrap_fl :: "(real \<Rightarrow> real) \<Rightarrow> real \<Rightarrow> real \<Rightarrow> real" where
  "wrap_fl rd c extent =
    (let c1 = (if c < 0 then rd (c + extent) else c)
     in if c1 > extent then rd (c1 - extent) else c1)"

definition step_particle_fl ::
  "(real \<Rightarrow> real) \<Rightarrow> (real \<Rightarrow> real \<Rightarrow> real) \<Rightarrow> settings \<Rightarrow> real \<Rightarrow> real \<Rightarrow> real \<Rightarrow> real
     \<Rightarrow> particle list \<Rightarrow> nat \<Rightarrow> particle" where
  "step_particle_fl rd hy s w h r1 r2 ps i =
    (let p1 = ps ! i;
         f = force_scan_fl rd hy s ps i;
         vx1 = rd (vx p1 + rd (fst f + rd (rd (r1 - 0.5) * randomForce s)));
         vy1 = rd (vy p1 + rd (snd f + rd (rd (r2 - 0.5) * randomForce s)));
         vx2 = rd (vx1 * friction s);
         vy2 = rd (vy1 * friction s);
         v = cap_velocity_fl rd hy (velocityCap s) (vx2, vy2);
         x1 = rd (x p1 + fst v);
         y1 = rd (y p1 + snd v)
     in \<lparr>x = wrap_fl rd x1 w, y = wrap_fl rd y1 h, vx = fst v, vy = snd v,
         rotation = rd (rotation p1 + rotationSpeed s)\<rparr>)"

section \<open>The step on JavaScript numbers\<close>



















section \<open>Concrete configurations\<close>

text \<open>A source of random numbers that always returns one half.\<close>

definition rnd_half :: "nat \<Rightarrow> real" where
  "rnd_half n = 1 / 2"

text \<open>
  Two particles at \<open>(0, 0)\<close> and \<open>(10, 0)\<close> at rest, repulsion radius 40, attraction
  radius 120, no cohesion, no jitter, no rotation, friction 1, velocity cap 100.
\<close>

definition two_body_settings :: settings where
  "two_body_settings =
     \<lparr>particleCount = 2, velocityCap = 100, repulsionRadius = 40, attractionRadius = 120,
      cohesionForce = 0, friction = 1, randomForce = 0, rotationSpeed = 0,
      trailOpacity = 0.05, backgroundColor = ''#000000'', swarmColor = ''#FF69B4'',
      shape = Line, svgPathData = ''M0 -1 L1 0 L0 1''\<rparr>"

definition two_body :: "particle list" where
  "two_body = [\<lparr>x = 0, y = 0, vx = 0, vy = 0, rotation = 0\<rparr>,
               \<lparr>x = 10, y = 0, vx = 0, vy = 0, rotation = 0\<rparr>]"

text \<open>Particles on the horizontal axis at distances 50, 40 and 120 from the first one, and the
  two-body settings with cohesion force 1.\<close>

definition far_pair :: "particle list" where
  "far_pair = [\<lparr>x = 0, y = 0, vx = 0, vy = 0, rotation = 0\<rparr>,
               \<lparr>x = 50, y = 0, vx = 0, vy = 0, rotation = 0\<rparr>,
               \<lparr>x = 40, y = 0, vx = 0, vy = 0, rotation = 0\<rparr>,
               \<lparr>x = 120, y = 0, vx = 0, vy = 0, rotation = 0\<rparr>]"


text \<open>Settings whose attraction radius (30) is below the repulsion radius (40).\<close>

definition inverted_settings :: settings where
  "inverted_settings = two_body_settings\<lparr>attractionRadius := 30, cohesionForce := 1\<rparr>"

text \<open>A particle one step away from the right edge of a canvas 800 wide.\<close>

definition edge_particle :: particle where
  "edge_particle = \<lparr>x = 799, y = 0, vx = 1, vy = 0, rotation = 0\<rparr>"

text \<open>
  Friction 0, no jitter, no cohesion, repulsion radius 0, and a particle that moves.
\<close>

definition inert_settings :: settings where
  "inert_settings = two_body_settings\<lparr>friction := 0, repulsionRadius := 0\<rparr>"

definition moving_particle :: particle where
  "moving_particle = \<lparr>x = 5, y = 5, vx = 1, vy = 0, rotation = 0\<rparr>"

text \<open>Two moving particles 10 apart, inside the attraction radius of 120.\<close>

definition drifting_pair :: "particle list" where
  "drifting_pair = [\<lparr>x = 0, y = 0, vx = 1, vy = 0, rotation = 0\<rparr>,
                    \<lparr>x = 10, y = 0, vx = 2, vy = 0, rotation = 0\<rparr>]"

text \<open>
  A source of random numbers that always returns three quarters, and a component state
  before the canvas effect has run: the two-body settings, no particles, no compiled path.
\<close>

definition rnd_three_quarters :: "nat \<Rightarrow> real" where
  "rnd_three_quarters n = 3 / 4"

definition blank_state :: "'p app_state" where
  "blank_state =
     \<lparr>cfg = two_body_settings, svgError = [], particles = [], customSVGPath2D = None,
      dpr = 1, width = 0, height = 0, canvas_width = 0, canvas_height = 0\<rparr>"

text \<open>
  A stand-in for the browser's path parser, to run the handlers on concrete input: it
  accepts the default path string, which compiles to itself, and rejects every other
  string. The state \<open>broken_path_state\<close> is a component with the custom shape whose path
  string was rejected and whose pool holds one moving particle.
\<close>

definition default_path_only :: "string \<Rightarrow> string option" where
  "default_path_only str = (if str = ''M0 -1 L1 0 L0 1'' then Some str else None)"

definition broken_path_state :: "string app_state" where
  "broken_path_state =
     \<lparr>cfg = two_body_settings\<lparr>shape := CustomSVG, svgPathData := ''Z Z Z (''\<rparr>,
      svgError = invalid_svg_message, particles = [moving_particle], customSVGPath2D = None,
      dpr = 1, width = 800, height = 600, canvas_width = 800, canvas_height = 600\<rparr>"

definition surface_800_600 :: layout where
  "surface_800_600 = \<lparr>clientWidth = 800, clientHeight = 600, devicePixelRatio = 1\<rparr>"








section \<open>Auxiliary facts\<close>



lemma hypot_axis: "hypot a 0 = \<bar>a\<bar>" by (simp add: hypot_def)

lemma length_tick_upto: "length (tick_upto s w h rnd k ps) = length ps"
  by (induction k) (simp_all add: Let_def)

lemma tick_upto_nth_ge: "k \<le> i \<Longrightarrow> tick_upto s w h rnd k ps ! i = ps ! i"
  by (induction k) (simp_all add: Let_def)

lemma tick_upto_Suc_nth:
  "i < length ps \<Longrightarrow>
   tick_upto s w h rnd (Suc i) ps ! i =
   step_particle s w h (rnd (2 * i)) (rnd (2 * i + 1)) (tick_upto s w h rnd i ps) i"
  by (simp add: Let_def length_tick_upto)

lemma tick_upto_nth_lt:
  "i < k \<Longrightarrow> tick_upto s w h rnd k ps ! i = tick_upto s w h rnd (Suc i) ps ! i"
proof (induction k)
  case 0
  then show ?case by simp
next
  case (Suc k)
  show ?case
  proof (cases "i = k")
    case True
    then show ?thesis by simp
  next
    case False
    with Suc.prems have "i < k" by simp
    then have "tick_upto s w h rnd k ps ! i = tick_upto s w h rnd (Suc i) ps ! i"
      by (rule Suc.IH)
    moreover have "tick_upto s w h rnd (Suc k) ps ! i = tick_upto s w h rnd k ps ! i"
      using False by (simp add: Let_def)
    ultimately show ?thesis by simp
  qed
qed

lemma tick_upto_as_append:
  assumes "k \<le> length ps"
  shows "tick_upto s w h rnd k ps = take k (tick s w h rnd ps) @ drop k ps"
proof (rule nth_equalityI)
  show "length (tick_upto s w h rnd k ps) = length (take k (tick s w h rnd ps) @ drop k ps)"
    using assms by (simp add: length_tick_upto tick_def)
next
  fix i
  assume "i < length (tick_upto s w h rnd k ps)"
  then have il: "i < length ps" by (simp add: length_tick_upto)
  show "tick_upto s w h rnd k ps ! i = (take k (tick s w h rnd ps) @ drop k ps) ! i"
  proof (cases "i < k")
    case True
    have "tick_upto s w h rnd k ps ! i = tick_upto s w h rnd (Suc i) ps ! i"
      using True by (rule tick_upto_nth_lt)
    also have "\<dots> = tick_upto s w h rnd (length ps) ps ! i"
      using il by (rule tick_upto_nth_lt [symmetric])
    finally show ?thesis
      using True assms il by (simp add: nth_append tick_def length_tick_upto)
  next
    case False
    then show ?thesis
      using assms il by (simp add: nth_append tick_def length_tick_upto tick_upto_nth_ge)
  qed
qed

lemma tick_nth:
  assumes "i < length ps"
  shows "tick s w h rnd ps ! i =
     step_particle s w h (rnd (2 * i)) (rnd (2 * i + 1)) (take i (tick s w h rnd ps) @ drop i ps) i"
proof -
  have "tick s w h rnd ps ! i = tick_upto s w h rnd (Suc i) ps ! i"
    unfolding tick_def using assms by (rule tick_upto_nth_lt)
  also have "\<dots> = step_particle s w h (rnd (2 * i)) (rnd (2 * i + 1)) (tick_upto s w h rnd i ps) i"
    using assms by (rule tick_upto_Suc_nth)
  also have "tick_upto s w h rnd i ps = take i (tick s w h rnd ps) @ drop i ps"
    using assms by (intro tick_upto_as_append) simp
  finally show ?thesis .
qed






lemma wrap_bounds:
  assumes "- e \<le> c" "c \<le> 2 * e"
  shows "0 \<le> wrap c e" "wrap c e \<le> e"
  using assms by (auto simp: wrap_def Let_def)

lemma step_particle_vel:
  "(vx (step_particle s w h r1 r2 ps i), vy (step_particle s w h r1 r2 ps i)) =
   cap_velocity (velocityCap s)
     ((vx (ps ! i) + (fst (force_scan s ps i) + (r1 - 0.5) * randomForce s)) * friction s,
      (vy (ps ! i) + (snd (force_scan s ps i) + (r2 - 0.5) * randomForce s)) * friction s)"
  by (simp add: step_particle_def Let_def)

section \<open>Pairwise forces\<close>







text \<open>
  C10. For all settings and particles the body of the inner loop, with each of its
  divisions checked, never meets a zero divisor, and returns what the unchecked body
  returns: the divisions by \<open>d\<close> are under the guard \<open>d > 0\<close>, the division by
  \<open>repulsionRadius\<close> is under \<open>0 < d < repulsionRadius\<close>, and the division by
  \<open>attractionRadius - repulsionRadius\<close> is under \<open>repulsionRadius \<le> d < attractionRadius\<close>.
  When \<open>attractionRadius \<le> repulsionRadius\<close> the attraction branch is never taken: the
  body is the repulsion branch or leaves the accumulator as it is.
\<close>

theorem force_scan_no_zero_division:
  "accumulate_checked s p1 p2 f = Some (accumulate s p1 p2 f)
   \<and> (attractionRadius s \<le> repulsionRadius s \<longrightarrow>
        accumulate s p1 p2 f =
          (let dx = x p2 - x p1; dy = y p2 - y p1; d = hypot dx dy
           in if 0 < d \<and> d < repulsionRadius s
              then (fst f - dx / d * repul (repulsionRadius s) d,
                    snd f - dy / d * repul (repulsionRadius s) d)
              else f))"
  by (simp add: accumulate_checked_def accumulate_def checked_div_def repul_def attr_def Let_def)

theorem force_scan_no_zero_division_witness:
  "attractionRadius inverted_settings \<le> repulsionRadius inverted_settings
   \<and> accumulate_checked inverted_settings (far_pair ! 0) (far_pair ! 1) (0, 0) = Some (0, 0)"
  using force_scan_no_zero_division [of inverted_settings "far_pair ! 0" "far_pair ! 1" "(0, 0)"]
  by (simp add: inverted_settings_def two_body_settings_def far_pair_def accumulate_def
      hypot_axis Let_def)

section \<open>Wraparound\<close>

lemma step_particle_pos:
  "x (step_particle s w h r1 r2 ps i) = wrap (x (ps ! i) + vx (step_particle s w h r1 r2 ps i)) w"
  "y (step_particle s w h r1 r2 ps i) = wrap (y (ps ! i) + vy (step_particle s w h r1 r2 ps i)) h"
  by (simp_all add: step_particle_def Let_def)

text \<open>
  The second test of the wraparound is \<open>p1.x > width\<close>, so a coordinate that is exactly
  \<open>width\<close> before the wraparound stays there. A particle at \<open>x = 799\<close> with velocity 1 on
  a canvas 800 wide ends the frame at \<open>x = 800\<close>, outside \<open>[0, 800)\<close>.
\<close>

theorem wrap_upper_edge_counterexample:
  "- 800 \<le> x ([edge_particle] ! 0) + vx (step_particle two_body_settings 800 600 (1 / 2) (1 / 2) [edge_particle] 0)
   \<and> x ([edge_particle] ! 0) + vx (step_particle two_body_settings 800 600 (1 / 2) (1 / 2) [edge_particle] 0) \<le> 2 * 800
   \<and> x (step_particle two_body_settings 800 600 (1 / 2) (1 / 2) [edge_particle] 0) = 800
   \<and> \<not> x (step_particle two_body_settings 800 600 (1 / 2) (1 / 2) [edge_particle] 0) < 800"
  by (simp add: step_particle_def force_scan_def edge_particle_def two_body_settings_def
      cap_velocity_def hypot_axis wrap_def Let_def)

text \<open>
  C5, as the code has it. Let \<open>q\<close> be a particle after its step in a frame; its position
  before the wraparound is its old position plus its new velocity. If that position lies in
  \<open>[-width, 2 * width]\<close> and \<open>[-height, 2 * height]\<close>, then after the wraparound both
  coordinates lie in the closed intervals \<open>[0, width]\<close> and \<open>[0, height]\<close>. The position
  before the wraparound is in that range whenever the particle starts the step inside
  \<open>[0, width] \<times> [0, height]\<close> and its new velocity is at most \<open>width\<close> and \<open>height\<close> in
  the two components.
\<close>

theorem wrap_closed_range:
  assumes "q = step_particle s w h r1 r2 ps i"
  shows "(- w \<le> x (ps ! i) + vx q \<and> x (ps ! i) + vx q \<le> 2 * w
          \<and> - h \<le> y (ps ! i) + vy q \<and> y (ps ! i) + vy q \<le> 2 * h \<longrightarrow>
            0 \<le> x q \<and> x q \<le> w \<and> 0 \<le> y q \<and> y q \<le> h)
       \<and> (\<bar>vx q\<bar> \<le> w \<and> \<bar>vy q\<bar> \<le> h
          \<and> 0 \<le> x (ps ! i) \<and> x (ps ! i) \<le> w \<and> 0 \<le> y (ps ! i) \<and> y (ps ! i) \<le> h \<longrightarrow>
            - w \<le> x (ps ! i) + vx q \<and> x (ps ! i) + vx q \<le> 2 * w
            \<and> - h \<le> y (ps ! i) + vy q \<and> y (ps ! i) + vy q \<le> 2 * h
            \<and> 0 \<le> x q \<and> x q \<le> w \<and> 0 \<le> y q \<and> y q \<le> h)"
proof -
  have px: "x q = wrap (x (ps ! i) + vx q) w" and py: "y q = wrap (y (ps ! i) + vy q) h"
    unfolding assms by (rule step_particle_pos)+
  have inside: "0 \<le> x q \<and> x q \<le> w \<and> 0 \<le> y q \<and> y q \<le> h"
    if r: "- w \<le> x (ps ! i) + vx q" "x (ps ! i) + vx q \<le> 2 * w"
          "- h \<le> y (ps ! i) + vy q" "y (ps ! i) + vy q \<le> 2 * h"
    using wrap_bounds(1,2) [OF r(1,2)] wrap_bounds(1,2) [OF r(3,4)]
    unfolding px [symmetric] py [symmetric] by simp
  have reach: "- w \<le> x (ps ! i) + vx q \<and> x (ps ! i) + vx q \<le> 2 * w
            \<and> - h \<le> y (ps ! i) + vy q \<and> y (ps ! i) + vy q \<le> 2 * h"
    if "\<bar>vx q\<bar> \<le> w" "\<bar>vy q\<bar> \<le> h"
      and "0 \<le> x (ps ! i)" "x (ps ! i) \<le> w" "0 \<le> y (ps ! i)" "y (ps ! i) \<le> h"
    using that by linarith
  show ?thesis
  proof (intro conjI impI)
    assume a: "- w \<le> x (ps ! i) + vx q \<and> x (ps ! i) + vx q \<le> 2 * w
          \<and> - h \<le> y (ps ! i) + vy q \<and> y (ps ! i) + vy q \<le> 2 * h"
    then have i1: "0 \<le> x q \<and> x q \<le> w \<and> 0 \<le> y q \<and> y q \<le> h"
      by (intro inside) simp_all
    from i1 show "0 \<le> x q" by simp
    from i1 show "x q \<le> w" by simp
    from i1 show "0 \<le> y q" by simp
    from i1 show "y q \<le> h" by simp
  next
    assume b: "\<bar>vx q\<bar> \<le> w \<and> \<bar>vy q\<bar> \<le> h
          \<and> 0 \<le> x (ps ! i) \<and> x (ps ! i) \<le> w \<and> 0 \<le> y (ps ! i) \<and> y (ps ! i) \<le> h"
    then have r: "- w \<le> x (ps ! i) + vx q \<and> x (ps ! i) + vx q \<le> 2 * w
            \<and> - h \<le> y (ps ! i) + vy q \<and> y (ps ! i) + vy q \<le> 2 * h"
      by (intro reach) simp_all
    then have i2: "0 \<le> x q \<and> x q \<le> w \<and> 0 \<le> y q \<and> y q \<le> h"
      using inside by simp
    from r show "- w \<le> x (ps ! i) + vx q" by simp
    from r show "x (ps ! i) + vx q \<le> 2 * w" by simp
    from r show "- h \<le> y (ps ! i) + vy q" by simp
    from r show "y (ps ! i) + vy q \<le> 2 * h" by simp
    from i2 show "0 \<le> x q" by simp
    from i2 show "x q \<le> w" by simp
    from i2 show "0 \<le> y q" by simp
    from i2 show "y q \<le> h" by simp
  qed
qed

theorem wrap_closed_range_witness:
  "\<bar>vx (step_particle two_body_settings 800 600 (1 / 2) (1 / 2) two_body 0)\<bar> \<le> 800
   \<and> \<bar>vy (step_particle two_body_settings 800 600 (1 / 2) (1 / 2) two_body 0)\<bar> \<le> 600
   \<and> 0 \<le> x (two_body ! 0) \<and> x (two_body ! 0) \<le> 800
   \<and> 0 \<le> y (two_body ! 0) \<and> y (two_body ! 0) \<le> 600
   \<and> - 800 \<le> x (two_body ! 0) + vx (step_particle two_body_settings 800 600 (1 / 2) (1 / 2) two_body 0)
   \<and> x (two_body ! 0) + vx (step_particle two_body_settings 800 600 (1 / 2) (1 / 2) two_body 0) \<le> 2 * 800
   \<and> - 600 \<le> y (two_body ! 0) + vy (step_particle two_body_settings 800 600 (1 / 2) (1 / 2) two_body 0)
   \<and> y (two_body ! 0) + vy (step_particle two_body_settings 800 600 (1 / 2) (1 / 2) two_body 0) \<le> 2 * 600
   \<and> 0 \<le> x (step_particle two_body_settings 800 600 (1 / 2) (1 / 2) two_body 0)
   \<and> x (step_particle two_body_settings 800 600 (1 / 2) (1 / 2) two_body 0) \<le> 800
   \<and> 0 \<le> y (step_particle two_body_settings 800 600 (1 / 2) (1 / 2) two_body 0)
   \<and> y (step_particle two_body_settings 800 600 (1 / 2) (1 / 2) two_body 0) \<le> 600"
proof -
  have f: "force_scan two_body_settings two_body 0 = (- (3 / 4), 0)"
    by (simp add: two_body_def two_body_settings_def numeral_2_eq_2
      force_scan_def accumulate_def hypot_axis repul_def attr_def Let_def)
  have v: "vx (step_particle two_body_settings 800 600 (1 / 2) (1 / 2) two_body 0) = - (3 / 4)"
          "vy (step_particle two_body_settings 800 600 (1 / 2) (1 / 2) two_body 0) = 0"
    unfolding step_particle_def f
    by (simp_all add: two_body_def two_body_settings_def cap_velocity_def hypot_axis Let_def)
  have p: "x (two_body ! 0) = 0" "y (two_body ! 0) = 0" by (simp_all add: two_body_def)
  show ?thesis
    using wrap_closed_range [OF refl, where ps = two_body and i = 0 and s = two_body_settings
        and w = 800 and h = 600 and ?r1.0 = "1 / 2" and ?r2.0 = "1 / 2"]
    by (simp add: v p)
qed

section \<open>The velocity cap in double precision\<close>

text \<open>With exact arithmetic the rounded step is the step over the reals.\<close>

lemma accumulate_fl_exact: "accumulate_fl (\<lambda>a. a) hypot s p1 p2 f = accumulate s p1 p2 f"
  by (simp add: accumulate_fl_def accumulate_def repul_def attr_def Let_def)

lemma force_scan_fl_exact: "force_scan_fl (\<lambda>a. a) hypot s ps i = force_scan s ps i"
  unfolding force_scan_fl_def force_scan_def accumulate_fl_exact ..

lemma cap_velocity_fl_exact: "cap_velocity_fl (\<lambda>a. a) hypot cap v = cap_velocity cap v"
  by (simp add: cap_velocity_fl_def cap_velocity_def Let_def)

lemma wrap_fl_exact: "wrap_fl (\<lambda>a. a) c e = wrap c e"
  by (simp add: wrap_fl_def wrap_def Let_def)

lemma step_particle_fl_exact:
  "step_particle_fl (\<lambda>a. a) hypot s w h r1 r2 ps i = step_particle s w h r1 r2 ps i"
  by (simp add: step_particle_fl_def step_particle_def force_scan_fl_exact cap_velocity_fl_exact
      wrap_fl_exact Let_def)

























section \<open>The frame as a whole\<close>

lemma fold_fixed: "(\<And>j. g j a = a) \<Longrightarrow> fold g js a = a"
  by (induction js) simp_all

lemma accumulate_inert:
  assumes "cohesionForce s = 0" and "repulsionRadius s = 0"
  shows "accumulate s p1 p2 (0, 0) = (0, 0)"
  using assms by (simp add: accumulate_def Let_def)

lemma force_scan_inert:
  assumes "cohesionForce s = 0" and "repulsionRadius s = 0"
  shows "force_scan s ps i = (0, 0)"
  unfolding force_scan_def
  by (rule fold_fixed) (simp add: accumulate_inert [OF assms])

lemma tick_nth_upto:
  assumes "i < length ps"
  shows "tick s w h rnd ps ! i =
     step_particle s w h (rnd (2 * i)) (rnd (2 * i + 1)) (tick_upto s w h rnd i ps) i"
  using assms tick_nth [OF assms] tick_upto_as_append [of i ps] by simp

lemma two_body_first:
  "tick_upto two_body_settings w h rnd (Suc 0) two_body =
     [\<lparr>x = w - 3 / 4, y = wrap 0 h, vx = - (3 / 4), vy = 0, rotation = 0\<rparr>,
      \<lparr>x = 10, y = 0, vx = 0, vy = 0, rotation = 0\<rparr>]"
proof -
  have f: "force_scan two_body_settings two_body 0 = (- (3 / 4), 0)"
    by (simp add: two_body_def two_body_settings_def numeral_2_eq_2
      force_scan_def accumulate_def hypot_axis repul_def attr_def Let_def)
  have "step_particle two_body_settings w h (rnd 0) (rnd 1) two_body 0
      = \<lparr>x = w - 3 / 4, y = wrap 0 h, vx = - (3 / 4), vy = 0, rotation = 0\<rparr>"
    unfolding step_particle_def f
    by (simp add: two_body_def two_body_settings_def cap_velocity_def hypot_axis wrap_def Let_def)
  then show ?thesis by (simp add: Let_def) (simp add: two_body_def)
qed

lemma two_body_second_force:
  assumes "203 / 4 \<le> w"
  shows "force_scan two_body_settings
     [\<lparr>x = w - 3 / 4, y = 0, vx = - (3 / 4), vy = 0, rotation = 0\<rparr>,
      \<lparr>x = 10, y = 0, vx = 0, vy = 0, rotation = 0\<rparr>] (Suc 0) = (0, 0)"
  using assms
  by (simp add: two_body_settings_def numeral_2_eq_2
      force_scan_def accumulate_def hypot_axis repul_def attr_def Let_def)

lemma two_body_tick:
  assumes "203 / 4 \<le> w" and "0 \<le> h"
  shows "tick two_body_settings w h rnd two_body =
     [\<lparr>x = w - 3 / 4, y = 0, vx = - (3 / 4), vy = 0, rotation = 0\<rparr>,
      \<lparr>x = 10, y = 0, vx = 0, vy = 0, rotation = 0\<rparr>]"
proof -
  have w0: "wrap 0 h = 0" using assms(2) by (simp add: wrap_def)
  have l: "length two_body = Suc (Suc 0)" by (simp add: two_body_def)
  have "step_particle two_body_settings w h (rnd 2) (rnd 3)
     [\<lparr>x = w - 3 / 4, y = 0, vx = - (3 / 4), vy = 0, rotation = 0\<rparr>,
      \<lparr>x = 10, y = 0, vx = 0, vy = 0, rotation = 0\<rparr>] (Suc 0)
      = \<lparr>x = 10, y = 0, vx = 0, vy = 0, rotation = 0\<rparr>"
    unfolding step_particle_def two_body_second_force [OF assms(1)]
    using assms
    by (simp add: two_body_settings_def cap_velocity_def hypot_axis wrap_def Let_def)
  then show ?thesis
    unfolding tick_def l tick_upto.simps(2) [of _ _ _ _ "Suc 0"] two_body_first w0
    by (simp add: Let_def)
qed

text \<open>
  The velocity is multiplied by \<open>friction\<close> in every step, so with friction 0 a moving
  particle does not keep its velocity: a single particle with velocity \<open>(1, 0)\<close> has
  velocity 0 after one frame.
\<close>

theorem zero_friction_counterexample:
  "friction inert_settings = 0 \<and> randomForce inert_settings = 0
   \<and> cohesionForce inert_settings = 0 \<and> repulsionRadius inert_settings = 0
   \<and> vx ([moving_particle] ! 0) = 1
   \<and> vx (tick inert_settings 800 600 rnd_half [moving_particle] ! 0) = 0"
  by (simp add: tick_def step_particle_def force_scan_def inert_settings_def two_body_settings_def
      moving_particle_def cap_velocity_def hypot_axis Let_def)

text \<open>
  C7, as the code has it. With no jitter, no cohesion and repulsion radius 0 (and a velocity
  cap that is not negative) the force scan yields the zero force for every particle of every
  list, also on the partly updated array that the scan of particle \<open>i\<close> sees. With friction
  0 the step then multiplies the velocity by 0: every particle has velocity zero after the
  frame. It is with friction 1 that the velocity after the frame is the velocity before it,
  changed by the cap only.
\<close>

theorem inert_step:
  assumes "randomForce s = 0" and "cohesionForce s = 0"
      and "repulsionRadius s = 0" and "0 \<le> velocityCap s"
  shows "force_scan s qs j = (0, 0)
       \<and> (i < length ps \<longrightarrow>
            force_scan s (tick_upto s w h rnd i ps) i = (0, 0)
            \<and> (friction s = 0 \<longrightarrow>
                  vx (tick s w h rnd ps ! i) = 0 \<and> vy (tick s w h rnd ps ! i) = 0)
            \<and> (friction s = 1 \<longrightarrow>
                  (vx (tick s w h rnd ps ! i), vy (tick s w h rnd ps ! i)) =
                  cap_velocity (velocityCap s) (vx (ps ! i), vy (ps ! i))))"
proof (intro conjI impI)
  show "force_scan s qs j = (0, 0)" using assms(2,3) by (rule force_scan_inert)
  show z: "force_scan s (tick_upto s w h rnd i ps) i = (0, 0)"
    using assms(2,3) by (rule force_scan_inert)
  assume i: "i < length ps"
  have old: "tick_upto s w h rnd i ps ! i = ps ! i" by (simp add: tick_upto_nth_ge)
  have v: "(vx (tick s w h rnd ps ! i), vy (tick s w h rnd ps ! i)) =
        cap_velocity (velocityCap s) (vx (ps ! i) * friction s, vy (ps ! i) * friction s)"
    unfolding tick_nth_upto [OF i] step_particle_vel z old by (simp add: assms)
  {
    assume "friction s = 0"
    then have "(vx (tick s w h rnd ps ! i), vy (tick s w h rnd ps ! i)) = (0, 0)"
      using v assms(4) by (simp add: cap_velocity_def hypot_axis Let_def)
    then show "vx (tick s w h rnd ps ! i) = 0" and "vy (tick s w h rnd ps ! i) = 0"
      by simp_all
  }
  {
    assume "friction s = 1"
    then show "(vx (tick s w h rnd ps ! i), vy (tick s w h rnd ps ! i)) =
                  cap_velocity (velocityCap s) (vx (ps ! i), vy (ps ! i))"
      using v by simp
  }
qed

theorem inert_step_witness:
  "randomForce inert_settings = 0 \<and> cohesionForce inert_settings = 0
   \<and> repulsionRadius inert_settings = 0 \<and> 0 \<le> velocityCap inert_settings
   \<and> (1::nat) < length drifting_pair
   \<and> hypot (x (drifting_pair ! 0) - x (drifting_pair ! 1)) (y (drifting_pair ! 0) - y (drifting_pair ! 1))
        < attractionRadius inert_settings
   \<and> rnd_three_quarters 2 - 0.5 \<noteq> 0
   \<and> force_scan inert_settings drifting_pair 1 = (0, 0)
   \<and> force_scan inert_settings (tick_upto inert_settings 800 600 rnd_three_quarters 1 drifting_pair) 1
        = (0, 0)
   \<and> friction inert_settings = 0
   \<and> vx (tick inert_settings 800 600 rnd_three_quarters drifting_pair ! 1) = 0
   \<and> vy (tick inert_settings 800 600 rnd_three_quarters drifting_pair ! 1) = 0
   \<and> friction (inert_settings\<lparr>friction := 1\<rparr>) = 1
   \<and> vx (tick (inert_settings\<lparr>friction := 1\<rparr>) 800 600 rnd_three_quarters drifting_pair ! 1) = 2
   \<and> vy (tick (inert_settings\<lparr>friction := 1\<rparr>) 800 600 rnd_three_quarters drifting_pair ! 1) = 0"
proof -
  have a: "randomForce inert_settings = 0"
    "cohesionForce inert_settings = 0" "repulsionRadius inert_settings = 0"
    "0 \<le> velocityCap inert_settings"
    and f: "friction inert_settings = 0"
    and ar: "attractionRadius inert_settings = 120"
    by (simp_all add: inert_settings_def two_body_settings_def)
  have b: "randomForce (inert_settings\<lparr>friction := 1\<rparr>) = 0"
    "cohesionForce (inert_settings\<lparr>friction := 1\<rparr>) = 0"
    "repulsionRadius (inert_settings\<lparr>friction := 1\<rparr>) = 0"
    "0 \<le> velocityCap (inert_settings\<lparr>friction := 1\<rparr>)"
    using a by simp_all
  have c: "velocityCap inert_settings = 100"
    by (simp add: inert_settings_def two_body_settings_def)
  have l: "(1::nat) < length drifting_pair" by (simp add: drifting_pair_def)
  have d: "hypot (x (drifting_pair ! 0) - x (drifting_pair ! 1))
             (y (drifting_pair ! 0) - y (drifting_pair ! 1)) = 10"
    by (simp add: drifting_pair_def hypot_axis)
  have v: "vx (drifting_pair ! 1) = 2" "vy (drifting_pair ! 1) = 0"
    by (simp_all add: drifting_pair_def)
  note still = inert_step [OF a, where qs = drifting_pair and j = 1 and i = 1 and ps = drifting_pair
      and w = 800 and h = 600 and rnd = rnd_three_quarters]
  note kept = inert_step [OF b, where qs = drifting_pair and j = 1 and i = 1 and ps = drifting_pair
      and w = 800 and h = 600 and rnd = rnd_three_quarters]
  have k: "vx (tick (inert_settings\<lparr>friction := 1\<rparr>) 800 600 rnd_three_quarters drifting_pair ! 1) = 2
     \<and> vy (tick (inert_settings\<lparr>friction := 1\<rparr>) 800 600 rnd_three_quarters drifting_pair ! 1) = 0"
  proof -
    have "(vx (tick (inert_settings\<lparr>friction := 1\<rparr>) 800 600 rnd_three_quarters drifting_pair ! 1),
           vy (tick (inert_settings\<lparr>friction := 1\<rparr>) 800 600 rnd_three_quarters drifting_pair ! 1))
        = cap_velocity (velocityCap (inert_settings\<lparr>friction := 1\<rparr>))
            (vx (drifting_pair ! 1), vy (drifting_pair ! 1))"
      using kept l by simp
    also have "\<dots> = (2, 0)"
      unfolding v by (simp add: c cap_velocity_def hypot_axis)
    finally show ?thesis by simp
  qed
  have s: "force_scan inert_settings drifting_pair 1 = (0, 0)
     \<and> force_scan inert_settings (tick_upto inert_settings 800 600 rnd_three_quarters 1 drifting_pair) 1
        = (0, 0)
     \<and> vx (tick inert_settings 800 600 rnd_three_quarters drifting_pair ! 1) = 0
     \<and> vy (tick inert_settings 800 600 rnd_three_quarters drifting_pair ! 1) = 0"
    using still l f by simp
  show ?thesis
    using k s a f l d by (simp add: ar rnd_three_quarters_def)
qed

text \<open>
  The outer loop writes each particle back before it scans the next one. In the two-body
  configuration on a canvas of 800 by 600 the first particle gets the velocity
  \<open>(-3/4, 0)\<close> and is wrapped to \<open>x = 799.25\<close>; the second particle is then scanned
  against that position, 789.25 away, and receives no force, where the positions at the
  start of the frame would give it the force \<open>(3/4, 0)\<close>. It stays at rest.
\<close>

theorem snapshot_counterexample:
  "vx (tick two_body_settings 800 600 rnd_half two_body ! 1) = 0
   \<and> vy (tick two_body_settings 800 600 rnd_half two_body ! 1) = 0
   \<and> force_scan two_body_settings two_body 1 = (3 / 4, 0)
   \<and> force_scan two_body_settings (tick_upto two_body_settings 800 600 rnd_half 1 two_body) 1 = (0, 0)"
proof -
  have a: "(203 / 4 :: real) \<le> 800" "(0::real) \<le> 600" by simp_all
  have "force_scan two_body_settings two_body 1 = (3 / 4, 0)"
    by (simp add: two_body_def two_body_settings_def numeral_2_eq_2
      force_scan_def accumulate_def hypot_axis repul_def attr_def Let_def)
  moreover have "force_scan two_body_settings (tick_upto two_body_settings 800 600 rnd_half 1 two_body) 1 = (0, 0)"
    using two_body_second_force [OF a(1)] two_body_first [of 800 600 rnd_half]
    by (simp add: wrap_def)
  ultimately show ?thesis
    by (simp add: two_body_tick [OF a])
qed

text \<open>
  C3, as the code has it. The step of particle \<open>i\<close> in a frame is computed on the array in
  which the particles before \<open>i\<close> already have the positions of this frame and the others
  still have those of the frame's start. In the two-body configuration, on any canvas at
  least 50.75 wide, one frame leaves the first particle with velocity \<open>(-3/4, 0)\<close>, away
  from the second, at \<open>x = width - 3/4\<close>, and leaves the second particle at rest.
\<close>

theorem in_place_scan:
  "(i < length ps \<longrightarrow>
      tick s w h rnd ps ! i =
        step_particle s w h (rnd (2 * i)) (rnd (2 * i + 1)) (take i (tick s w h rnd ps) @ drop i ps) i)
   \<and> (203 / 4 \<le> w \<and> 0 \<le> h \<longrightarrow>
      tick two_body_settings w h rnd two_body =
        [\<lparr>x = w - 3 / 4, y = 0, vx = - (3 / 4), vy = 0, rotation = 0\<rparr>,
         \<lparr>x = 10, y = 0, vx = 0, vy = 0, rotation = 0\<rparr>])"
  using tick_nth [of i ps s w h rnd] two_body_tick [of w h rnd] by simp

theorem in_place_scan_witness:
  "(1::nat) < length two_body \<and> (203 / 4 :: real) \<le> 800 \<and> (0::real) \<le> 600
   \<and> take 1 (tick two_body_settings 800 600 rnd_half two_body) @ drop 1 two_body
      = [\<lparr>x = 3197 / 4, y = 0, vx = - (3 / 4), vy = 0, rotation = 0\<rparr>,
         \<lparr>x = 10, y = 0, vx = 0, vy = 0, rotation = 0\<rparr>]
   \<and> tick two_body_settings 800 600 rnd_half two_body ! 1 =
        step_particle two_body_settings 800 600 (rnd_half 2) (rnd_half 3)
          [\<lparr>x = 3197 / 4, y = 0, vx = - (3 / 4), vy = 0, rotation = 0\<rparr>,
           \<lparr>x = 10, y = 0, vx = 0, vy = 0, rotation = 0\<rparr>] 1"
proof -
  have l: "(1::nat) < length two_body" by (simp add: two_body_def)
  note t = in_place_scan [of 1 two_body two_body_settings 800 600 rnd_half]
  have full: "tick two_body_settings 800 600 rnd_half two_body =
      [\<lparr>x = 3197 / 4, y = 0, vx = - (3 / 4), vy = 0, rotation = 0\<rparr>,
       \<lparr>x = 10, y = 0, vx = 0, vy = 0, rotation = 0\<rparr>]"
    using t by simp
  have tk: "take 1 (tick two_body_settings 800 600 rnd_half two_body) @ drop 1 two_body
      = [\<lparr>x = 3197 / 4, y = 0, vx = - (3 / 4), vy = 0, rotation = 0\<rparr>,
         \<lparr>x = 10, y = 0, vx = 0, vy = 0, rotation = 0\<rparr>]"
    unfolding full by (simp add: two_body_def)
  have "tick two_body_settings 800 600 rnd_half two_body ! 1 =
        step_particle two_body_settings 800 600 (rnd_half (2 * 1)) (rnd_half (2 * 1 + 1))
          (take 1 (tick two_body_settings 800 600 rnd_half two_body) @ drop 1 two_body) 1"
    using t l by blast
  then show ?thesis unfolding tk using l tk by simp
qed

section \<open>Resizing\<close>

lemma particles_resizeCanvas: "particles (resizeCanvas env st) = particles st"
  by (simp add: resizeCanvas_def Let_def)

lemma cfg_resizeCanvas: "cfg (resizeCanvas env st) = cfg st"
  by (simp add: resizeCanvas_def Let_def)

lemma size_resizeCanvas:
  "width (resizeCanvas env st) = clientWidth env" "height (resizeCanvas env st) = clientHeight env"
  by (simp_all add: resizeCanvas_def Let_def)

lemma particles_canvas_effect:
  "particles (canvas_effect env rnd st) =
     map (\<lambda>k. \<lparr>x = rnd (3 * k) * clientWidth env, y = rnd (3 * k + 1) * clientHeight env,
                vx = 0, vy = 0, rotation = rnd (3 * k + 2) * pi * 2\<rparr>)
         [0..<particleCount (cfg st)]"
  by (simp add: canvas_effect_def initParticles_def size_resizeCanvas cfg_resizeCanvas)

text \<open>
  The listener of the window's \<open>resize\<close> event is \<open>resizeCanvas\<close>, which does not call
  \<open>initParticles\<close>. A pool created on a surface of 800 by 600 with every random number
  3/4 has its first particle at \<open>(600, 450)\<close>; after a resize to 400 by 300 the particle is
  still there, outside \<open>[0, 400)\<close>.
\<close>

theorem resize_keeps_pool_counterexample:
  "particles (on_window_resize \<lparr>clientWidth = 400, clientHeight = 300, devicePixelRatio = 1\<rparr>
       (canvas_effect \<lparr>clientWidth = 800, clientHeight = 600, devicePixelRatio = 1\<rparr> rnd_three_quarters
          (blank_state :: unit app_state))) ! 0
     = \<lparr>x = 600, y = 450, vx = 0, vy = 0, rotation = 3 / 4 * pi * 2\<rparr>
   \<and> \<not> (600 :: real) < 400"
  by (simp add: on_window_resize_def particles_resizeCanvas particles_canvas_effect
      blank_state_def two_body_settings_def rnd_three_quarters_def)

text \<open>
  C4, as the code has it. The resize listener sets the closure variables \<open>width\<close> and
  \<open>height\<close> to the container's new size and leaves the particle pool as it is. The pool
  is created by the canvas effect (on mount and whenever one of its dependencies changes):
  it then has exactly \<open>particleCount\<close> particles, and with random numbers in \<open>[0, 1)\<close> on
  a surface of positive size each of them lies in \<open>[0, width) \<times> [0, height)\<close> with zero
  velocity.
\<close>

theorem resize_listener_effect:
  "particles (on_window_resize env st) = particles st
   \<and> width (on_window_resize env st) = clientWidth env
   \<and> height (on_window_resize env st) = clientHeight env
   \<and> length (particles (canvas_effect env rnd st)) = particleCount (cfg st)
   \<and> ((\<forall>n. 0 \<le> rnd n \<and> rnd n < 1) \<and> 0 < clientWidth env \<and> 0 < clientHeight env
        \<and> k < particleCount (cfg st) \<longrightarrow>
        0 \<le> x (particles (canvas_effect env rnd st) ! k)
        \<and> x (particles (canvas_effect env rnd st) ! k) < clientWidth env
        \<and> 0 \<le> y (particles (canvas_effect env rnd st) ! k)
        \<and> y (particles (canvas_effect env rnd st) ! k) < clientHeight env
        \<and> vx (particles (canvas_effect env rnd st) ! k) = 0
        \<and> vy (particles (canvas_effect env rnd st) ! k) = 0)"
proof (intro conjI impI)
  show "particles (on_window_resize env st) = particles st"
    by (simp add: on_window_resize_def particles_resizeCanvas)
  show "width (on_window_resize env st) = clientWidth env"
    and "height (on_window_resize env st) = clientHeight env"
    by (simp_all add: on_window_resize_def size_resizeCanvas)
  show "length (particles (canvas_effect env rnd st)) = particleCount (cfg st)"
    by (simp add: particles_canvas_effect)
next
  assume h: "(\<forall>n. 0 \<le> rnd n \<and> rnd n < 1) \<and> 0 < clientWidth env \<and> 0 < clientHeight env
        \<and> k < particleCount (cfg st)"
  then have k: "k < particleCount (cfg st)" by simp
  have r: "0 \<le> rnd (3 * k)" "rnd (3 * k) < 1" "0 \<le> rnd (3 * k + 1)" "rnd (3 * k + 1) < 1"
    using h by simp_all
  have p: "particles (canvas_effect env rnd st) ! k =
      \<lparr>x = rnd (3 * k) * clientWidth env, y = rnd (3 * k + 1) * clientHeight env,
                vx = 0, vy = 0, rotation = rnd (3 * k + 2) * pi * 2\<rparr>"
    using k by (simp add: particles_canvas_effect)
  show "0 \<le> x (particles (canvas_effect env rnd st) ! k)"
    and "0 \<le> y (particles (canvas_effect env rnd st) ! k)"
    using r h by (simp_all add: p)
  show "x (particles (canvas_effect env rnd st) ! k) < clientWidth env"
    using r(2) h mult_strict_right_mono [of "rnd (3 * k)" 1 "clientWidth env"] by (simp add: p)
  show "y (particles (canvas_effect env rnd st) ! k) < clientHeight env"
    using r(4) h mult_strict_right_mono [of "rnd (3 * k + 1)" 1 "clientHeight env"] by (simp add: p)
  show "vx (particles (canvas_effect env rnd st) ! k) = 0"
    and "vy (particles (canvas_effect env rnd st) ! k) = 0"
    by (simp_all add: p)
qed

theorem resize_listener_effect_witness:
  "(\<forall>n. 0 \<le> rnd_three_quarters n \<and> rnd_three_quarters n < 1)
   \<and> (0::nat) < particleCount (cfg (blank_state :: unit app_state))
   \<and> x (particles (canvas_effect \<lparr>clientWidth = 400, clientHeight = 300, devicePixelRatio = 1\<rparr>
          rnd_three_quarters (blank_state :: unit app_state)) ! 0) < 400
   \<and> y (particles (canvas_effect \<lparr>clientWidth = 400, clientHeight = 300, devicePixelRatio = 1\<rparr>
          rnd_three_quarters (blank_state :: unit app_state)) ! 0) < 300"
proof -
  have r: "\<forall>n. 0 \<le> rnd_three_quarters n \<and> rnd_three_quarters n < 1"
    by (simp add: rnd_three_quarters_def)
  have k: "(0::nat) < particleCount (cfg (blank_state :: unit app_state))"
    by (simp add: blank_state_def two_body_settings_def)
  show ?thesis
    using resize_listener_effect [of "\<lparr>clientWidth = 400, clientHeight = 300, devicePixelRatio = 1\<rparr>"
        "blank_state :: unit app_state" rnd_three_quarters 0] r k
    by simp
qed

section \<open>The compiled path\<close>

lemma particles_svg_effect: "particles (svg_effect compile st) = particles st"
  by (simp add: svg_effect_def split: option.split)

lemma cfg_svg_effect: "cfg (svg_effect compile st) = cfg st"
  by (simp add: svg_effect_def split: option.split)

lemma canvas_effect_keeps:
  "customSVGPath2D (canvas_effect env rnd st) = customSVGPath2D st"
  "svgError (canvas_effect env rnd st) = svgError st"
  by (simp_all add: canvas_effect_def initParticles_def resizeCanvas_def Let_def)

lemma draw_particle_custom:
  assumes "shape s = CustomSVG"
  shows "draw_particle s (Some cp) dp p =
     [SetFillStyle (swarmColor s), Save, Translate (x p * dp) (y p * dp), Rotate (rotation p),
      Scale (dp * 5) (dp * 5), FillPath cp, Restore]"
    and "draw_particle s None dp p =
     [SetFillStyle (swarmColor s), Save, Translate (x p * dp) (y p * dp), Rotate (rotation p),
      Restore]"
  using assms by (simp_all add: draw_particle_def Let_def)

text \<open>
  \<open>svgPathData\<close> is a dependency of the canvas effect as well, so a changed path string
  re-runs \<open>resizeCanvas(); initParticles();\<close>. From a state whose path string was
  rejected and whose pool holds one moving particle, entering the default path string
  gives a compiled path again, and a new pool of \<open>particleCount = 2\<close> particles at rest.
\<close>

theorem path_change_resets_pool_counterexample:
  "customSVGPath2D (handleSvgChange default_path_only surface_800_600 rnd_three_quarters
        ''M0 -1 L1 0 L0 1'' broken_path_state) = Some ''M0 -1 L1 0 L0 1''
   \<and> particles broken_path_state = [moving_particle]
   \<and> particles (handleSvgChange default_path_only surface_800_600 rnd_three_quarters
        ''M0 -1 L1 0 L0 1'' broken_path_state)
      = [\<lparr>x = 600, y = 450, vx = 0, vy = 0, rotation = 3 / 4 * pi * 2\<rparr>,
         \<lparr>x = 600, y = 450, vx = 0, vy = 0, rotation = 3 / 4 * pi * 2\<rparr>]"
  by (simp add: handleSvgChange_def Let_def canvas_effect_keeps particles_canvas_effect
      cfg_svg_effect svg_effect_def default_path_only_def broken_path_state_def
      two_body_settings_def surface_800_600_def rnd_three_quarters_def numeral_2_eq_2)

text \<open>
  C8, as the code has it, with the custom shape selected. If the path string compiles, the
  effect stores the compiled path and clears the error, and the loop body scales by
  \<open>5 * dpr\<close> and fills that path for a particle. If the constructor throws, the stored path
  becomes \<open>null\<close>, the error text is set, and the loop body paints nothing for a particle.
  The path effect itself never touches the particle pool. Entering a different path string
  that compiles stores its compiled path and clears the error, whatever the state before;
  the same change re-runs the canvas effect, which replaces the pool by \<open>particleCount\<close>
  new particles at rest.
\<close>

theorem svg_path_lifecycle:
  assumes "shape (cfg st) = CustomSVG"
  shows "(compile (svgPathData (cfg st)) = Some cp \<longrightarrow>
            customSVGPath2D (svg_effect compile st) = Some cp
            \<and> svgError (svg_effect compile st) = []
            \<and> draw_particle (cfg st) (customSVGPath2D (svg_effect compile st)) dp p =
                [SetFillStyle (swarmColor (cfg st)), Save, Translate (x p * dp) (y p * dp),
                 Rotate (rotation p), Scale (dp * 5) (dp * 5), FillPath cp, Restore])
       \<and> (compile (svgPathData (cfg st)) = None \<longrightarrow>
            customSVGPath2D (svg_effect compile st) = None
            \<and> svgError (svg_effect compile st) = invalid_svg_message
            \<and> svgError (svg_effect compile st) \<noteq> []
            \<and> \<not> list_ex paints
                  (draw_particle (cfg st) (customSVGPath2D (svg_effect compile st)) dp p))
       \<and> particles (svg_effect compile st) = particles st
       \<and> (pathData \<noteq> svgPathData (cfg st) \<and> compile pathData = Some cp \<longrightarrow>
            customSVGPath2D (handleSvgChange compile env rnd pathData st) = Some cp
            \<and> svgError (handleSvgChange compile env rnd pathData st) = []
            \<and> particles (handleSvgChange compile env rnd pathData st) =
                map (\<lambda>k. \<lparr>x = rnd (3 * k) * clientWidth env, y = rnd (3 * k + 1) * clientHeight env,
                           vx = 0, vy = 0, rotation = rnd (3 * k + 2) * pi * 2\<rparr>)
                    [0..<particleCount (cfg st)])"
proof (intro conjI impI)
  show "particles (svg_effect compile st) = particles st" by (rule particles_svg_effect)
next
  assume ok: "compile (svgPathData (cfg st)) = Some cp"
  show p: "customSVGPath2D (svg_effect compile st) = Some cp"
    and "svgError (svg_effect compile st) = []"
    using assms ok by (simp_all add: svg_effect_def)
  show "draw_particle (cfg st) (customSVGPath2D (svg_effect compile st)) dp p =
                [SetFillStyle (swarmColor (cfg st)), Save, Translate (x p * dp) (y p * dp),
                 Rotate (rotation p), Scale (dp * 5) (dp * 5), FillPath cp, Restore]"
    unfolding p using assms by (rule draw_particle_custom(1))
next
  assume bad: "compile (svgPathData (cfg st)) = None"
  show p: "customSVGPath2D (svg_effect compile st) = None"
    and e: "svgError (svg_effect compile st) = invalid_svg_message"
    using assms bad by (simp_all add: svg_effect_def)
  show "svgError (svg_effect compile st) \<noteq> []"
    unfolding e by (simp add: invalid_svg_message_def)
  show "\<not> list_ex paints (draw_particle (cfg st) (customSVGPath2D (svg_effect compile st)) dp p)"
    unfolding p draw_particle_custom(2) [OF assms] by simp
next
  assume h: "pathData \<noteq> svgPathData (cfg st) \<and> compile pathData = Some cp"
  define st1 where "st1 = st\<lparr>cfg := (cfg st)\<lparr>svgPathData := pathData\<rparr>, svgError := []\<rparr>"
  have run: "handleSvgChange compile env rnd pathData st = canvas_effect env rnd (svg_effect compile st1)"
    using h by (simp add: handleSvgChange_def st1_def Let_def)
  have c1: "shape (cfg st1) = CustomSVG" "compile (svgPathData (cfg st1)) = Some cp"
    "particleCount (cfg st1) = particleCount (cfg st)"
    using assms h by (simp_all add: st1_def)
  show "customSVGPath2D (handleSvgChange compile env rnd pathData st) = Some cp"
    and "svgError (handleSvgChange compile env rnd pathData st) = []"
    unfolding run canvas_effect_keeps using c1 by (simp_all add: svg_effect_def)
  show "particles (handleSvgChange compile env rnd pathData st) =
                map (\<lambda>k. \<lparr>x = rnd (3 * k) * clientWidth env, y = rnd (3 * k + 1) * clientHeight env,
                           vx = 0, vy = 0, rotation = rnd (3 * k + 2) * pi * 2\<rparr>)
                    [0..<particleCount (cfg st)]"
    unfolding run particles_canvas_effect cfg_svg_effect c1(3) ..
qed

theorem svg_path_lifecycle_witness:
  "shape (cfg broken_path_state) = CustomSVG
   \<and> default_path_only (svgPathData (cfg broken_path_state)) = None
   \<and> customSVGPath2D (svg_effect default_path_only broken_path_state) = None
   \<and> ''M0 -1 L1 0 L0 1'' \<noteq> svgPathData (cfg broken_path_state)
   \<and> default_path_only ''M0 -1 L1 0 L0 1'' = Some ''M0 -1 L1 0 L0 1''
   \<and> customSVGPath2D (handleSvgChange default_path_only surface_800_600 rnd_three_quarters
        ''M0 -1 L1 0 L0 1'' broken_path_state) = Some ''M0 -1 L1 0 L0 1''
   \<and> shape (cfg (broken_path_state\<lparr>cfg := (cfg broken_path_state)\<lparr>svgPathData := ''M0 -1 L1 0 L0 1''\<rparr>\<rparr>)) = CustomSVG
   \<and> customSVGPath2D (svg_effect default_path_only
        (broken_path_state\<lparr>cfg := (cfg broken_path_state)\<lparr>svgPathData := ''M0 -1 L1 0 L0 1''\<rparr>\<rparr>))
       = Some ''M0 -1 L1 0 L0 1''"
proof -
  have s: "shape (cfg broken_path_state) = CustomSVG"
    and d: "svgPathData (cfg broken_path_state) = ''Z Z Z (''"
    by (simp_all add: broken_path_state_def)
  have s2: "shape (cfg (broken_path_state\<lparr>cfg := (cfg broken_path_state)\<lparr>svgPathData := ''M0 -1 L1 0 L0 1''\<rparr>\<rparr>)) = CustomSVG"
    using s by simp
  have c: "default_path_only ''Z Z Z ('' = None"
    "default_path_only ''M0 -1 L1 0 L0 1'' = Some ''M0 -1 L1 0 L0 1''"
    by (simp_all add: default_path_only_def)
  show ?thesis
    using svg_path_lifecycle [OF s, of default_path_only "''M0 -1 L1 0 L0 1''" _ _ "''M0 -1 L1 0 L0 1''"
            surface_800_600 rnd_three_quarters]
          svg_path_lifecycle [OF s2, of default_path_only "''M0 -1 L1 0 L0 1''"]
          s s2 c d
    by simp
qed

section \<open>Non-finite settings\<close>












end
